theory Spec2Isabelle
  imports Main
begin

section \<open>JavaScript values used by the logger\<close>

text \<open>
  The numbers that occur in this program are integers (HTTP status codes, millisecond
  clock readings, calendar fields) or \<open>NaN\<close> (the fields of an invalid \<open>Date\<close>).
\<close>

datatype js_number = NaN | Num int

text \<open>
  An object written as a literal is the list of its properties as written; every key
  occurs once.
  \<open>JIntrinsic\<close> stands for an object supplied by the runtime (a built-in function),
  identified by its name.
\<close>

datatype js_value =
    JUndefined
  | JNull
  | JNumber js_number
  | JString string
  | JObject "(string \<times> js_value) list"
  | JIntrinsic string

type_synonym js_object = "(string \<times> js_value) list"

subsection \<open>Number to string, \<open>padStart\<close>, \<open>toUpperCase\<close>\<close>

definition digit_char :: "nat \<Rightarrow> char" where
  "digit_char d = ''0123456789'' ! d"

fun decimal :: "nat \<Rightarrow> string" where
  "decimal n = (if n < 10 then [digit_char n] else decimal (n div 10) @ [digit_char (n mod 10)])"

declare decimal.simps [simp del]

text \<open>
  \<open>String(x)\<close> and the conversion inside a template literal, for the numbers above
  (integers of magnitude below \<open>10^21\<close> print in plain decimal).
\<close>

fun Number_toString :: "js_number \<Rightarrow> string" where
  "Number_toString NaN = ''NaN''"
| "Number_toString (Num i) = (if i < 0 then ''-'' @ decimal (nat (- i)) else decimal (nat i))"

text \<open>The binary \<open>+\<close> on two numbers.\<close>

fun js_plus :: "js_number \<Rightarrow> js_number \<Rightarrow> js_number" where
  "js_plus (Num a) (Num b) = Num (a + b)"
| "js_plus _ _ = NaN"

text \<open>
  \<open>s.padStart(targetLength, padString)\<close>: the string itself when it is already long
  enough or the filler is empty, otherwise the filler repeated and cut to the missing
  length, in front of the string.
\<close>

definition padStart :: "string \<Rightarrow> nat \<Rightarrow> string \<Rightarrow> string" where
  "padStart s targetLength padString =
     (if targetLength \<le> length s \<or> padString = [] then s
      else take (targetLength - length s)
             (concat (replicate (targetLength - length s) padString)) @ s)"

text \<open>\<open>toUpperCase\<close> on ASCII text (HTTP method names are ASCII tokens).\<close>

definition upper_char :: "char \<Rightarrow> char" where
  "upper_char c =
     (case map_of (zip ''abcdefghijklmnopqrstuvwxyz'' ''ABCDEFGHIJKLMNOPQRSTUVWXYZ'') c of
        Some u \<Rightarrow> u
      | None \<Rightarrow> c)"

definition toUpperCase :: "string \<Rightarrow> string" where
  "toUpperCase s = map upper_char s"

section \<open>Index name from the log time (elk-logger.js, \<open>getIndexFromLogTime\<close>)\<close>

text \<open>
  \<open>new Date(logTime)\<close> is the runtime's constructor. The function reads the resulting
  object only through its local-time getters, so a \<open>Date\<close> is modelled by what they
  return: an invalid date answers \<open>NaN\<close> to every getter; a valid one has a year, a
  zero-based month, a day of the month and a time within the day (milliseconds), all in
  the time zone of the process.
\<close>

datatype js_date =
    InvalidDate
  | LocalDate (fullYear: int) (monthIndex: nat) (dayOfMonth: nat) (msOfDay: nat)

fun getFullYear :: "js_date \<Rightarrow> js_number" where
  "getFullYear InvalidDate = NaN"
| "getFullYear (LocalDate y m d t) = Num y"

fun getMonth :: "js_date \<Rightarrow> js_number" where
  "getMonth InvalidDate = NaN"
| "getMonth (LocalDate y m d t) = Num (int m)"

fun getDate :: "js_date \<Rightarrow> js_number" where
  "getDate InvalidDate = NaN"
| "getDate (LocalDate y m d t) = Num (int d)"

definition getIndexFromLogTime :: "js_date \<Rightarrow> string" where
  "getIndexFromLogTime date =
     (let year = getFullYear date;
          month = padStart (Number_toString (js_plus (getMonth date) (Num 1))) 2 ''0'';
          day = padStart (Number_toString (getDate date)) 2 ''0''
      in ''logstash-'' @ Number_toString year @ ''.'' @ month @ ''.'' @ day)"

section \<open>The process as far as the logger touches it\<close>

datatype severity = LevelDebug | LevelInfo | LevelWarn | LevelError

text \<open>
  An object that is passed around and merged is modelled by what reading its properties
  gives: the value under each name it has. The order in which its names are listed is
  left out.
\<close>

type_synonym js_properties = "string \<rightharpoonup> js_value"

text \<open>
  One call of a method of \<open>elkLogger\<close>: the method called (\<open>debug\<close>, \<open>info\<close>,
  \<open>warn\<close>, \<open>error\<close>) and the object handed to it.
\<close>

record log_call =
  level :: severity
  mergingObject :: js_properties

text \<open>
  The state the code reads and writes: the clock \<open>Date.now()\<close> reads, the calls
  \<open>elkLogger\<close> has received, oldest first, and the lines \<open>console.log\<close> has written,
  each the list of its arguments.
\<close>

record world =
  now :: int
  logged :: "log_call list"
  console :: "js_value list list"

definition Date_now :: "world \<Rightarrow> int" where
  "Date_now w = now w"

definition console_log :: "js_value list \<Rightarrow> world \<Rightarrow> world" where
  "console_log args w = w\<lparr>console := console w @ [args]\<rparr>"

definition elkLogger :: "severity \<Rightarrow> js_properties \<Rightarrow> world \<Rightarrow> world" where
  "elkLogger lvl obj w = w\<lparr>logged := logged w @ [\<lparr>level = lvl, mergingObject = obj\<rparr>]\<rparr>"

subsection \<open>Object literals with a spread\<close>

text \<open>
  \<open>{k: v, ...source}\<close> copies the own properties of \<open>source\<close> onto the properties
  written before the spread: under a name the source has, the source's value is found
  afterwards; under any other name, what was written before.
\<close>

definition spread :: "js_properties \<Rightarrow> js_properties \<Rightarrow> js_properties" where
  "spread target source = target ++ source"

subsection \<open>\<open>logError\<close>, \<open>logWarn\<close>, \<open>logInfo\<close>, \<open>logDebug\<close>\<close>

definition logError :: "string \<Rightarrow> js_properties \<Rightarrow> world \<Rightarrow> world" where
  "logError errorType errorData =
     elkLogger LevelError (spread [''errorType'' \<mapsto> JString errorType] errorData)"

definition logWarn :: "string \<Rightarrow> js_properties \<Rightarrow> world \<Rightarrow> world" where
  "logWarn warningType warningData =
     elkLogger LevelWarn (spread [''warningType'' \<mapsto> JString warningType] warningData)"

definition logInfo :: "string \<Rightarrow> js_properties \<Rightarrow> world \<Rightarrow> world" where
  "logInfo infoType infoData =
     elkLogger LevelInfo (spread [''infoType'' \<mapsto> JString infoType] infoData)"

definition logDebug :: "string \<Rightarrow> js_properties \<Rightarrow> world \<Rightarrow> world" where
  "logDebug debugType debugData =
     elkLogger LevelDebug (spread [''debugType'' \<mapsto> JString debugType] debugData)"

section \<open>The request boundary (response-logger-middleware.js)\<close>

text \<open>
  \<open>Headers\<close> keeps one value per lower-case name; \<open>get\<close> answers \<open>null\<close> for a
  name that is absent.
\<close>

definition headers_get :: "(string \<times> string) list \<Rightarrow> string \<Rightarrow> js_value" where
  "headers_get hs name = (case map_of hs name of None \<Rightarrow> JNull | Some v \<Rightarrow> JString v)"

text \<open>The field \<open>req_method\<close> is the request's \<open>method\<close>.\<close>

record request =
  req_method :: string
  url :: string
  headers :: "(string \<times> string) list"

record response =
  status :: int
  body :: string

text \<open>
  What the downstream handler throws is any value at all. \<open>null\<close> and \<open>undefined\<close>
  have no properties to read. Every other value is modelled by the three reads the
  boundary makes of it: \<open>message\<close> and \<open>stack\<close> (\<open>undefined\<close> where the value has
  none), and the \<open>name\<close> of its \<open>constructor\<close>, which is \<open>None\<close> where the value has
  no constructor (an object made with \<open>Object.create(null)\<close>).
\<close>

record js_error =
  message :: js_value
  stack :: js_value
  constructor_name :: "js_value option"

datatype js_thrown = ThrownUndefined | ThrownNull | ThrownObject js_error

text \<open>
  What reaches the caller of the boundary when it fails: the value the handler threw,
  or the \<open>TypeError\<close> the runtime raises when a property (here named) is read of
  \<open>null\<close> or \<open>undefined\<close>.
\<close>

datatype js_failure = Thrown js_thrown | TypeError string

fun read_message :: "js_thrown \<Rightarrow> js_failure + js_value" where
  "read_message ThrownUndefined = Inl (TypeError ''message'')"
| "read_message ThrownNull = Inl (TypeError ''message'')"
| "read_message (ThrownObject e) = Inr (message e)"

fun read_stack :: "js_thrown \<Rightarrow> js_failure + js_value" where
  "read_stack ThrownUndefined = Inl (TypeError ''stack'')"
| "read_stack ThrownNull = Inl (TypeError ''stack'')"
| "read_stack (ThrownObject e) = Inr (stack e)"

fun read_constructor_name :: "js_thrown \<Rightarrow> js_failure + js_value" where
  "read_constructor_name ThrownUndefined = Inl (TypeError ''constructor'')"
| "read_constructor_name ThrownNull = Inl (TypeError ''constructor'')"
| "read_constructor_name (ThrownObject e) =
     (case constructor_name e of None \<Rightarrow> Inl (TypeError ''name'') | Some n \<Rightarrow> Inr n)"

text \<open>
  \<open>context.next()\<close> runs the rest of the chain: it may take time and log on its own,
  and it settles with a thrown value (\<open>Inl\<close>) or a response (\<open>Inr\<close>).
\<close>

record fresh_context =
  req :: request
  context_next :: "world \<Rightarrow> (js_thrown + response) \<times> world"

text \<open>
  In the \<open>catch\<close> block the argument of \<open>logError\<close> is built first, property by
  property in the order written; a read that fails ends the block there, before
  \<open>logError\<close> is called and before \<open>throw error\<close> is reached.
\<close>

definition responseLoggerMiddleware ::
    "fresh_context \<Rightarrow> world \<Rightarrow> (js_failure + response) \<times> world" where
  "responseLoggerMiddleware ctx w =
     (let startTime = Date_now w;
          method = req_method (req ctx);
          url = url (req ctx)
      in case context_next ctx w of
           (Inl error, w1) \<Rightarrow>
             (case read_message error of
                Inl typeError \<Rightarrow> (Inl typeError, w1)
              | Inr error_message \<Rightarrow>
             (case read_stack error of
                Inl typeError \<Rightarrow> (Inl typeError, w1)
              | Inr error_stack \<Rightarrow>
             (case read_constructor_name error of
                Inl typeError \<Rightarrow> (Inl typeError, w1)
              | Inr error_constructor_name \<Rightarrow>
                  (Inl (Thrown error),
                   logError ''UnhandledError''
                     [''error'' \<mapsto> error_message,
                      ''stack'' \<mapsto> error_stack,
                      ''url'' \<mapsto> JString url,
                      ''method'' \<mapsto> JString (toUpperCase method),
                      ''userAgent'' \<mapsto> headers_get (headers (req ctx)) ''user-agent'',
                      ''context'' \<mapsto> JObject
                         [(''errorType'', error_constructor_name),
                          (''duration'', JNumber (Num (Date_now w1 - startTime)))]]
                     w1))))
         | (Inr response, w1) \<Rightarrow>
             (let duration = Date_now w1 - startTime;
                  status = status response;
                  logData =
                    [''message'' \<mapsto> JString (toUpperCase method @ '' '' @ url @ '' - ''
                                            @ Number_toString (Num status)),
                     ''method'' \<mapsto> JString (toUpperCase method),
                     ''url'' \<mapsto> JString url,
                     ''status'' \<mapsto> JNumber (Num status),
                     ''duration'' \<mapsto> JNumber (Num duration),
                     ''userAgent'' \<mapsto> headers_get (headers (req ctx)) ''user-agent'']
              in (Inr response,
                  if status \<ge> 500 then logError ''ResponseError'' logData w1
                  else if status \<ge> 400 then logWarn ''ResponseWarning'' logData w1
                  else logInfo ''ResponseSuccess'' logData w1)))"

section \<open>The line written for a call (elk-logger.js, lines 99 to 105)\<close>







section \<open>Delivery outcomes of the Elasticsearch stream (elk-logger.js, lines 33 to 42)\<close>

text \<open>
  The stream is an event emitter. \<open>on\<close> adds a listener for an event name; \<open>emit\<close>
  runs the listeners of that name in the order they were added. An \<open>error\<close> event
  that finds no listener is thrown to whoever emitted it (\<open>Inl\<close>); any other event
  without a listener is dropped.
\<close>

type_synonym listener = "js_value \<Rightarrow> world \<Rightarrow> world"

definition on :: "string \<Rightarrow> listener \<Rightarrow> (string \<times> listener) list \<Rightarrow> (string \<times> listener) list" where
  "on eventName l ls = ls @ [(eventName, l)]"

definition emit :: "(string \<times> listener) list \<Rightarrow> string \<Rightarrow> js_value \<Rightarrow> world \<Rightarrow> js_value + world" where
  "emit ls eventName arg w =
     (let called = map snd (filter (\<lambda>(n, l). n = eventName) ls)
      in if called = [] then (if eventName = ''error'' then Inl arg else Inr w)
         else Inr (fold (\<lambda>l. l arg) called w))"

definition streamToElasticSearch_listeners :: "(string \<times> listener) list" where
  "streamToElasticSearch_listeners =
     (on ''error'' (\<lambda>error. console_log [JString ''ELK ERROR'', error])
     (on ''insert'' (\<lambda>error. console_log [JString ''ELK INSERT'', error])
     (on ''unknown'' (\<lambda>error. console_log [JString ''ELK UNKNOWN'', error])
     (on ''insertError'' (\<lambda>error. console_log [JString ''ELK INSERTERROR'', error])
        []))))"

section \<open>The log level of the environment (elk-logger.js, lines 48 to 59)\<close>

definition LOG_LEVELS :: js_object where
  "LOG_LEVELS =
     [(''development'', JString ''debug''),
      (''test'', JString ''info''),
      (''staging'', JString ''warn''),
      (''production'', JString ''error'')]"

text \<open>
  \<open>LOG_LEVELS\<close> is written as an object literal, so its prototype is
  \<open>Object.prototype\<close>, and \<open>LOG_LEVELS[key]\<close> finds the properties of the prototype
  where the object has none of its own under that key. These are the properties of
  \<open>Object.prototype\<close> in Deno, whose runtime the module calls (it removes the
  \<open>__proto__\<close> accessor); all of them are functions.
\<close>

definition Object_prototype :: js_object where
  "Object_prototype =
     [(''constructor'', JIntrinsic ''Object''),
      (''__defineGetter__'', JIntrinsic ''Object.prototype.__defineGetter__''),
      (''__defineSetter__'', JIntrinsic ''Object.prototype.__defineSetter__''),
      (''hasOwnProperty'', JIntrinsic ''Object.prototype.hasOwnProperty''),
      (''__lookupGetter__'', JIntrinsic ''Object.prototype.__lookupGetter__''),
      (''__lookupSetter__'', JIntrinsic ''Object.prototype.__lookupSetter__''),
      (''isPrototypeOf'', JIntrinsic ''Object.prototype.isPrototypeOf''),
      (''propertyIsEnumerable'', JIntrinsic ''Object.prototype.propertyIsEnumerable''),
      (''toString'', JIntrinsic ''Object.prototype.toString''),
      (''valueOf'', JIntrinsic ''Object.prototype.valueOf''),
      (''toLocaleString'', JIntrinsic ''Object.prototype.toLocaleString'')]"

definition property_get :: "js_object \<Rightarrow> string \<Rightarrow> js_value" where
  "property_get obj key =
     (case map_of obj key of
        Some v \<Rightarrow> v
      | None \<Rightarrow> (case map_of Object_prototype key of Some v \<Rightarrow> v | None \<Rightarrow> JUndefined))"

text \<open>The truth value of a value, as \<open>||\<close> tests it.\<close>

fun ToBoolean :: "js_value \<Rightarrow> bool" where
  "ToBoolean JUndefined = False"
| "ToBoolean JNull = False"
| "ToBoolean (JNumber NaN) = False"
| "ToBoolean (JNumber (Num i)) = (i \<noteq> 0)"
| "ToBoolean (JString s) = (s \<noteq> [])"
| "ToBoolean (JObject ps) = True"
| "ToBoolean (JIntrinsic n) = True"

definition js_or :: "js_value \<Rightarrow> js_value \<Rightarrow> js_value" where
  "js_or a b = (if ToBoolean a then a else b)"

text \<open>
  \<open>Deno.env.get(name)\<close> answers the variable's text, or \<open>undefined\<close> (\<open>None\<close>) when
  it is not set; used as a property key, \<open>undefined\<close> is the string \<open>undefined\<close>.
\<close>

definition Deno_env_get :: "(string \<times> string) list \<Rightarrow> string \<Rightarrow> string option" where
  "Deno_env_get env name = map_of env name"

fun ToPropertyKey :: "string option \<Rightarrow> string" where
  "ToPropertyKey (Some s) = s"
| "ToPropertyKey None = ''undefined''"

definition logLevel :: "(string \<times> string) list \<Rightarrow> js_value" where
  "logLevel env =
     js_or (property_get LOG_LEVELS (ToPropertyKey (Deno_env_get env ''APPLICATION_ENV'')))
           (JString ''info'')"

section \<open>The index name as the remote store expects it\<close>

text \<open>
  The interface of the remote store names the partition \<open>logstash-YYYY.MM.DD\<close>: a year
  of exactly four digits, a month (counted from 1) and a day of exactly two digits each.
  \<open>fixed_width w n\<close> is the last \<open>w\<close> decimal digits of \<open>n\<close>, with leading zeros.
\<close>

fun fixed_width :: "nat \<Rightarrow> nat \<Rightarrow> string" where
  "fixed_width 0 n = []"
| "fixed_width (Suc w) n = fixed_width w (n div 10) @ [digit_char (n mod 10)]"

definition logstash_YYYY_MM_DD :: "nat \<Rightarrow> nat \<Rightarrow> nat \<Rightarrow> string" where
  "logstash_YYYY_MM_DD y m d =
     ''logstash-'' @ fixed_width 4 y @ ''.'' @ fixed_width 2 m @ ''.'' @ fixed_width 2 d"

section \<open>The method in upper case, as the summary message wants it\<close>

text \<open>
  \<open>is_upper_case_of u s\<close>: the text \<open>u\<close> is \<open>s\<close> with every small letter from
  \<open>a\<close> to \<open>z\<close> replaced by its capital and every other character left as it is.
\<close>

definition is_upper_case_of :: "string \<Rightarrow> string \<Rightarrow> bool" where
  "is_upper_case_of u s =
     list_all2
       (\<lambda>c d. if c \<in> set ''abcdefghijklmnopqrstuvwxyz''
              then (c, d) \<in> set (zip ''abcdefghijklmnopqrstuvwxyz'' ''ABCDEFGHIJKLMNOPQRSTUVWXYZ'')
              else d = c)
       s u"

section \<open>Scenarios\<close>

definition scenario_world :: world where
  "scenario_world = \<lparr>now = 1000, logged = [], console = []\<rparr>"

definition scenario_request :: request where
  "scenario_request =
     \<lparr>req_method = ''GET'', url = ''/foo'', headers = [(''user-agent'', ''curl/8.5.0'')]\<rparr>"

text \<open>A downstream handler that answers with the given status after 12 milliseconds.\<close>

definition scenario_responding :: "int \<Rightarrow> fresh_context" where
  "scenario_responding code =
     \<lparr>req = scenario_request,
      context_next = (\<lambda>w. (Inr \<lparr>status = code, body = ''ok''\<rparr>, w\<lparr>now := now w + 12\<rparr>))\<rparr>"

text \<open>The same, for a request whose method is written in lower case.\<close>

definition scenario_lower_case :: fresh_context where
  "scenario_lower_case =
     \<lparr>req = \<lparr>req_method = ''get'', url = ''/foo'', headers = [(''user-agent'', ''curl/8.5.0'')]\<rparr>,
      context_next = (\<lambda>w. (Inr \<lparr>status = 200, body = ''ok''\<rparr>, w\<lparr>now := now w + 12\<rparr>))\<rparr>"

definition scenario_boom :: js_error where
  "scenario_boom =
     \<lparr>message = JString ''boom'', stack = JString ''Error: boom'',
      constructor_name = Some (JString ''Error'')\<rparr>"

text \<open>A downstream handler that throws \<open>new Error("boom")\<close> after 12 milliseconds.\<close>

definition scenario_throwing :: fresh_context where
  "scenario_throwing =
     \<lparr>req = scenario_request,
      context_next = (\<lambda>w. (Inl (ThrownObject scenario_boom), w\<lparr>now := now w + 12\<rparr>))\<rparr>"

text \<open>
  A downstream handler that ends in \<open>await Promise.reject()\<close>, which throws
  \<open>undefined\<close>, and one that ends in \<open>throw null\<close>, each after 12 milliseconds.
\<close>

definition scenario_rejecting :: fresh_context where
  "scenario_rejecting =
     \<lparr>req = scenario_request,
      context_next = (\<lambda>w. (Inl ThrownUndefined, w\<lparr>now := now w + 12\<rparr>))\<rparr>"

definition scenario_throwing_null :: fresh_context where
  "scenario_throwing_null =
     \<lparr>req = scenario_request,
      context_next = (\<lambda>w. (Inl ThrownNull, w\<lparr>now := now w + 12\<rparr>))\<rparr>"




section \<open>Facts about the building blocks\<close>

subsection \<open>Spreading one object over another\<close>

text \<open>Under every name, the value of the source where it has one.\<close>

lemma spread_lookup:
  "spread [k \<mapsto> c] source k' =
     (case source k' of Some v \<Rightarrow> Some v | None \<Rightarrow> if k' = k then Some c else None)"
  by (simp add: spread_def map_add_def split: option.splits)


lemma spread_target_kept: "source k = None \<Longrightarrow> spread target source k = target k"
  by (simp add: spread_def map_add_def)

subsection \<open>Upper case\<close>

lemma upper_char_of_small_letter:
  assumes "c \<in> set ''abcdefghijklmnopqrstuvwxyz''"
  shows "(c, upper_char c)
           \<in> set (zip ''abcdefghijklmnopqrstuvwxyz'' ''ABCDEFGHIJKLMNOPQRSTUVWXYZ'')"
proof -
  let ?table = "zip ''abcdefghijklmnopqrstuvwxyz'' ''ABCDEFGHIJKLMNOPQRSTUVWXYZ''"
  have "map fst ?table = ''abcdefghijklmnopqrstuvwxyz''"
    by simp
  with assms have "c \<in> fst ` set ?table"
    by (metis list.set_map)
  then have "map_of ?table c \<noteq> None"
    by (simp only: map_of_eq_None_iff not_not)
  then obtain u where u: "map_of ?table c = Some u"
    by blast
  then have "(c, u) \<in> set ?table"
    by (rule map_of_SomeD)
  moreover from u have "upper_char c = u"
    by (simp only: upper_char_def option.case)
  ultimately show ?thesis by simp
qed

lemma upper_char_of_other:
  assumes "c \<notin> set ''abcdefghijklmnopqrstuvwxyz''"
  shows "upper_char c = c"
proof -
  let ?table = "zip ''abcdefghijklmnopqrstuvwxyz'' ''ABCDEFGHIJKLMNOPQRSTUVWXYZ''"
  have "map fst ?table = ''abcdefghijklmnopqrstuvwxyz''"
    by simp
  with assms have "c \<notin> fst ` set ?table"
    by (metis list.set_map)
  then have "map_of ?table c = None"
    unfolding map_of_eq_None_iff .
  then show ?thesis
    by (simp only: upper_char_def option.case)
qed

lemma toUpperCase_is_upper_case: "is_upper_case_of (toUpperCase s) s"
proof -
  have "list_all2
          (\<lambda>c d. if c \<in> set ''abcdefghijklmnopqrstuvwxyz''
                 then (c, d) \<in> set (zip ''abcdefghijklmnopqrstuvwxyz'' ''ABCDEFGHIJKLMNOPQRSTUVWXYZ'')
                 else d = c)
          s (map upper_char s)"
  proof (induction s)
    case Nil
    show ?case by simp
  next
    case (Cons c s)
    show ?case
    proof (cases "c \<in> set ''abcdefghijklmnopqrstuvwxyz''")
      case True
      from upper_char_of_small_letter [OF True] True Cons.IH show ?thesis
        by (simp only: list_all2_Cons list.map if_True simp_thms)
    next
      case False
      from upper_char_of_other [OF False] False Cons.IH show ?thesis
        by (simp only: list_all2_Cons list.map if_False simp_thms)
    qed
  qed
  then show ?thesis
    by (simp only: is_upper_case_of_def toUpperCase_def)
qed

lemma toUpperCase_get: "toUpperCase ''get'' = ''GET''"
  by (simp add: toUpperCase_def upper_char_def)

text \<open>A text with a small letter in it is not its own upper case.\<close>

lemma get_is_not_upper_case: "\<not> is_upper_case_of ''get'' ''get''"
  by (simp add: is_upper_case_of_def)

subsection \<open>The ways through the request boundary\<close>

text \<open>The handler throws a value whose three properties can be read.\<close>

lemma middleware_throws:
  assumes "context_next ctx w = (Inl (ThrownObject e), w1)"
    and "constructor_name e = Some n"
  shows "responseLoggerMiddleware ctx w =
           (Inl (Thrown (ThrownObject e)),
            w1\<lparr>logged := logged w1 @
              [\<lparr>level = LevelError,
                mergingObject =
                  [''errorType'' \<mapsto> JString ''UnhandledError'',
                   ''error'' \<mapsto> message e,
                   ''stack'' \<mapsto> stack e,
                   ''url'' \<mapsto> JString (url (req ctx)),
                   ''method'' \<mapsto> JString (toUpperCase (req_method (req ctx))),
                   ''userAgent'' \<mapsto> headers_get (headers (req ctx)) ''user-agent'',
                   ''context'' \<mapsto> JObject
                      [(''errorType'', n),
                       (''duration'', JNumber (Num (Date_now w1 - Date_now w)))]]\<rparr>]\<rparr>)"
  using assms
  by (simp add: responseLoggerMiddleware_def logError_def elkLogger_def spread_def)

text \<open>The handler throws \<open>null\<close> or \<open>undefined\<close>: the first read fails.\<close>

lemma middleware_throws_nullish:
  assumes "context_next ctx w = (Inl thrown, w1)"
    and "thrown = ThrownUndefined \<or> thrown = ThrownNull"
  shows "responseLoggerMiddleware ctx w = (Inl (TypeError ''message''), w1)"
  using assms
  by (auto simp: responseLoggerMiddleware_def)

text \<open>The handler throws a value without a constructor: the last read fails.\<close>

lemma middleware_throws_without_constructor:
  assumes "context_next ctx w = (Inl (ThrownObject e), w1)"
    and "constructor_name e = None"
  shows "responseLoggerMiddleware ctx w = (Inl (TypeError ''name''), w1)"
  using assms
  by (simp add: responseLoggerMiddleware_def)

lemma middleware_returns:
  assumes "context_next ctx w = (Inr response, w1)"
  shows "responseLoggerMiddleware ctx w =
           (Inr response,
            w1\<lparr>logged := logged w1 @
              [\<lparr>level = (if 500 \<le> status response then LevelError
                         else if 400 \<le> status response then LevelWarn else LevelInfo),
                mergingObject =
                  (if 500 \<le> status response then [''errorType'' \<mapsto> JString ''ResponseError'']
                   else if 400 \<le> status response
                   then [''warningType'' \<mapsto> JString ''ResponseWarning'']
                   else [''infoType'' \<mapsto> JString ''ResponseSuccess''])
                  ++ [''message'' \<mapsto>
                        JString (toUpperCase (req_method (req ctx)) @ '' '' @ url (req ctx)
                                 @ '' - '' @ Number_toString (Num (status response))),
                      ''method'' \<mapsto> JString (toUpperCase (req_method (req ctx))),
                      ''url'' \<mapsto> JString (url (req ctx)),
                      ''status'' \<mapsto> JNumber (Num (status response)),
                      ''duration'' \<mapsto> JNumber (Num (Date_now w1 - Date_now w)),
                      ''userAgent'' \<mapsto> headers_get (headers (req ctx)) ''user-agent'']\<rparr>]\<rparr>)"
  using assms
  by (simp add: responseLoggerMiddleware_def logError_def logWarn_def logInfo_def
      elkLogger_def spread_def Let_def del: Number_toString.simps)

text \<open>
  Exactly one call is added where the handler returns a response or throws a value
  whose properties can be read.
\<close>

lemma boundary_logs_once_when_reads_succeed:
  assumes "context_next ctx w = (outcome, w1)"
    and "\<And>thrown. outcome = Inl thrown \<Longrightarrow>
           (\<exists>e n. thrown = ThrownObject e \<and> constructor_name e = Some n)"
  shows "\<exists>c. logged (snd (responseLoggerMiddleware ctx w)) = logged w1 @ [c]"
proof (cases outcome)
  case (Inl thrown)
  with assms(2) obtain e n where "thrown = ThrownObject e" "constructor_name e = Some n"
    by blast
  with assms(1) Inl show ?thesis
    by (simp add: middleware_throws)
next
  case (Inr response)
  with assms(1) show ?thesis
    by (simp add: middleware_returns)
qed

subsection \<open>The line written for a call\<close>



subsection \<open>Decimal digits\<close>

lemma decimal_one_digit: "n < 10 \<Longrightarrow> decimal n = [digit_char n]"
  using decimal.simps [of n] by simp

lemma decimal_more_digits: "10 \<le> n \<Longrightarrow> decimal n = decimal (n div 10) @ [digit_char (n mod 10)]"
  using decimal.simps [of n] by simp

lemma fixed_width_one: "n < 10 \<Longrightarrow> fixed_width (Suc 0) n = [digit_char n]"
  by simp

lemma decimal_two_digits:
  assumes "10 \<le> n" and "n < 100"
  shows "decimal n = fixed_width (Suc (Suc 0)) n"
proof -
  from assms have small: "n div 10 < 10" by simp
  have "decimal n = decimal (n div 10) @ [digit_char (n mod 10)]"
    by (rule decimal_more_digits [OF assms(1)])
  also have "decimal (n div 10) = fixed_width (Suc 0) (n div 10)"
    by (simp only: decimal_one_digit [OF small] fixed_width_one [OF small])
  finally show ?thesis by simp
qed

lemma decimal_three_digits:
  assumes "100 \<le> n" and "n < 1000"
  shows "decimal n = fixed_width (Suc (Suc (Suc 0))) n"
proof -
  from assms have big: "10 \<le> n" and lo: "10 \<le> n div 10" and hi: "n div 10 < 100" by simp_all
  have "decimal n = decimal (n div 10) @ [digit_char (n mod 10)]"
    by (rule decimal_more_digits [OF big])
  also have "decimal (n div 10) = fixed_width (Suc (Suc 0)) (n div 10)"
    by (rule decimal_two_digits [OF lo hi])
  finally show ?thesis by simp
qed

lemma decimal_four_digits:
  assumes "1000 \<le> n" and "n \<le> 9999"
  shows "decimal n = fixed_width 4 n"
proof -
  from assms have big: "10 \<le> n" and lo: "100 \<le> n div 10" and hi: "n div 10 < 1000" by simp_all
  have "(4::nat) = Suc (Suc (Suc (Suc 0)))" by simp
  then have four: "fixed_width 4 n = fixed_width (Suc (Suc (Suc (Suc 0)))) n"
    by (simp only:)
  have "decimal n = decimal (n div 10) @ [digit_char (n mod 10)]"
    by (rule decimal_more_digits [OF big])
  also have "decimal (n div 10) = fixed_width (Suc (Suc (Suc 0))) (n div 10)"
    by (rule decimal_three_digits [OF lo hi])
  finally show ?thesis by (simp add: four)
qed

lemma padStart_two_digits:
  assumes "n < 100"
  shows "padStart (decimal n) 2 ''0'' = fixed_width 2 n"
proof -
  have two: "fixed_width 2 n = fixed_width (Suc (Suc 0)) n"
    by (simp only: numeral_2_eq_2)
  show ?thesis
  proof (cases "n < 10")
    case True
    then show ?thesis
      by (simp add: two decimal_one_digit padStart_def digit_char_def)
  next
    case False
    then have "10 \<le> n" by simp
    from decimal_two_digits [OF this assms] show ?thesis
      by (simp add: two padStart_def)
  qed
qed

lemma fixed_width_two:
  "fixed_width 2 n = [digit_char (n div 10 mod 10), digit_char (n mod 10)]"
  by (simp add: numeral_2_eq_2)

lemma fixed_width_four:
  "fixed_width 4 n =
     [digit_char (n div 10 div 10 div 10 mod 10), digit_char (n div 10 div 10 mod 10),
      digit_char (n div 10 mod 10), digit_char (n mod 10)]"
proof -
  have "(4::nat) = Suc (Suc (Suc (Suc 0)))" by simp
  then have "fixed_width 4 n = fixed_width (Suc (Suc (Suc (Suc 0)))) n"
    by (simp only:)
  then show ?thesis by simp
qed

text \<open>A number never prints as \<open>NaN\<close>: its first character is a sign or a digit.\<close>

lemma digit_char_digit: "d < 10 \<Longrightarrow> digit_char d \<in> set ''0123456789''"
proof -
  assume "d < 10"
  then have "d < length ''0123456789''" by simp
  then show ?thesis unfolding digit_char_def by (rule nth_mem)
qed

lemma decimal_starts_with_digit: "decimal n \<noteq> [] \<and> hd (decimal n) \<in> set ''0123456789''"
proof (induction n rule: decimal.induct)
  case (1 n)
  show ?case
  proof (cases "n < 10")
    case True
    then show ?thesis by (simp add: decimal_one_digit digit_char_digit del: set_simps)
  next
    case False
    with 1 have "decimal (n div 10) \<noteq> [] \<and> hd (decimal (n div 10)) \<in> set ''0123456789''"
      by simp
    moreover from False have "decimal n = decimal (n div 10) @ [digit_char (n mod 10)]"
      by (simp add: decimal_more_digits)
    ultimately show ?thesis by simp
  qed
qed

lemma Number_toString_not_NaN: "hd (Number_toString (Num i)) \<noteq> CHR ''N''"
proof (cases "i < 0")
  case True
  then show ?thesis by simp
next
  case False
  have "hd (decimal (nat i)) \<in> set ''0123456789''"
    using decimal_starts_with_digit [of "nat i"] by blast
  then have "hd (decimal (nat i)) \<noteq> CHR ''N''" by auto
  with False show ?thesis by simp
qed

subsection \<open>The event emitter\<close>

text \<open>An \<open>error\<close> event is thrown to the emitter when nobody listens for it.\<close>

lemma emit_error_without_listener: "emit [] ''error'' outcome w = Inl outcome"
  by (simp add: emit_def)

subsection \<open>The log level table\<close>

lemma logLevel_table:
  "logLevel [(''APPLICATION_ENV'', ''development'')] = JString ''debug''
   \<and> logLevel [(''APPLICATION_ENV'', ''test'')] = JString ''info''
   \<and> logLevel [(''APPLICATION_ENV'', ''staging'')] = JString ''warn''
   \<and> logLevel [(''APPLICATION_ENV'', ''production'')] = JString ''error''"
  by (simp add: logLevel_def Deno_env_get_def property_get_def LOG_LEVELS_def js_or_def)

lemma logLevel_unset: "map_of env ''APPLICATION_ENV'' = None \<Longrightarrow> logLevel env = JString ''info''"
  by (simp add: logLevel_def Deno_env_get_def property_get_def LOG_LEVELS_def js_or_def
      Object_prototype_def)

text \<open>
  A name that is neither in the table nor a property of \<open>Object.prototype\<close> gets the
  default.
\<close>

lemma logLevel_fallback:
  assumes "map_of env ''APPLICATION_ENV'' = Some name"
    and "name \<notin> fst ` set LOG_LEVELS" and "name \<notin> fst ` set Object_prototype"
  shows "logLevel env = JString ''info''"
proof -
  from assms(2) have "map_of LOG_LEVELS name = None" by (simp add: map_of_eq_None_iff)
  moreover from assms(3) have "map_of Object_prototype name = None"
    by (simp add: map_of_eq_None_iff)
  ultimately show ?thesis
    by (simp add: logLevel_def Deno_env_get_def assms(1) property_get_def js_or_def)
qed

subsection \<open>The index name of a date\<close>

text \<open>
  The index name depends on the local calendar date alone, and for a year from 1000 to
  9999 it has the form the remote store expects.
\<close>

lemma index_same_calendar_day:
  "getFullYear a = getFullYear b \<Longrightarrow> getMonth a = getMonth b \<Longrightarrow> getDate a = getDate b
     \<Longrightarrow> getIndexFromLogTime a = getIndexFromLogTime b"
  by (simp add: getIndexFromLogTime_def)

lemma index_four_digit_year:
  assumes "1000 \<le> y" and "y \<le> 9999" and "m < 12" and "d \<le> 31"
  shows "getIndexFromLogTime (LocalDate y m d t) = logstash_YYYY_MM_DD (nat y) (m + 1) d"
proof -
  from assms have y: "decimal (nat y) = fixed_width 4 (nat y)"
    by (intro decimal_four_digits) auto
  from assms have m: "padStart (decimal (Suc m)) 2 ''0'' = fixed_width 2 (Suc m)"
    by (intro padStart_two_digits) auto
  from assms have d: "padStart (decimal d) 2 ''0'' = fixed_width 2 d"
    by (intro padStart_two_digits) auto
  have "nat (int m + 1) = Suc m" by simp
  with assms y m d show ?thesis
    by (simp add: getIndexFromLogTime_def logstash_YYYY_MM_DD_def)
qed

lemma index_of_2024_03_05:
  "getIndexFromLogTime (LocalDate 2024 2 5 36000000) = ''logstash-2024.03.05''"
  by (simp add: getIndexFromLogTime_def padStart_def decimal.simps digit_char_def)

section \<open>The claims\<close>

text \<open>
  C1. The boundary is to make exactly one call of the logger whether the downstream
  handler returns a response or throws. It does so where the handler returns a response
  or throws a value whose properties can be read
  (\<open>boundary_logs_once_when_reads_succeed\<close>). It does not where the handler throws
  \<open>undefined\<close>, as \<open>await Promise.reject()\<close> does: reading \<open>error.message\<close> fails
  inside the \<open>catch\<close> block, before \<open>logError\<close> is called, and the request ends
  with no call of the logger at all.
\<close>

theorem rejection_without_reason_is_not_logged:
  "logged (snd (context_next scenario_rejecting scenario_world)) = []
   \<and> logged (snd (responseLoggerMiddleware scenario_rejecting scenario_world)) = []
   \<and> fst (responseLoggerMiddleware scenario_rejecting scenario_world)
       = Inl (TypeError ''message'')"
proof -
  have run: "context_next scenario_rejecting scenario_world
               = (Inl ThrownUndefined, scenario_world\<lparr>now := 1012\<rparr>)"
    by (simp add: scenario_rejecting_def scenario_world_def)
  have "responseLoggerMiddleware scenario_rejecting scenario_world
          = (Inl (TypeError ''message''), scenario_world\<lparr>now := 1012\<rparr>)"
    by (rule middleware_throws_nullish [OF run]) simp
  with run show ?thesis
    by (simp add: scenario_world_def)
qed

text \<open>
  C2. When the downstream handler returns a response, the one call the boundary makes is
  chosen by the status: from 500 on it is an \<open>error\<close> call with category
  \<open>ResponseError\<close>, from 400 to 499 a \<open>warn\<close> call with category \<open>ResponseWarning\<close>,
  below 400 an \<open>info\<close> call with category \<open>ResponseSuccess\<close>.
\<close>

theorem response_classified_by_status:
  assumes "context_next ctx w = (Inr response, w1)"
  shows "(500 \<le> status response \<longrightarrow>
            (\<exists>c. logged (snd (responseLoggerMiddleware ctx w)) = logged w1 @ [c]
                \<and> level c = LevelError
                \<and> mergingObject c ''errorType'' = Some (JString ''ResponseError'')))
       \<and> (400 \<le> status response \<and> status response < 500 \<longrightarrow>
            (\<exists>c. logged (snd (responseLoggerMiddleware ctx w)) = logged w1 @ [c]
                \<and> level c = LevelWarn
                \<and> mergingObject c ''warningType'' = Some (JString ''ResponseWarning'')))
       \<and> (status response < 400 \<longrightarrow>
            (\<exists>c. logged (snd (responseLoggerMiddleware ctx w)) = logged w1 @ [c]
                \<and> level c = LevelInfo
                \<and> mergingObject c ''infoType'' = Some (JString ''ResponseSuccess'')))"
proof (intro conjI impI)
  note run = middleware_returns [OF assms]
  {
    assume "500 \<le> status response"
    with run show "\<exists>c. logged (snd (responseLoggerMiddleware ctx w)) = logged w1 @ [c]
        \<and> level c = LevelError
        \<and> mergingObject c ''errorType'' = Some (JString ''ResponseError'')"
      by simp
  next
    assume "400 \<le> status response \<and> status response < 500"
    with run show "\<exists>c. logged (snd (responseLoggerMiddleware ctx w)) = logged w1 @ [c]
        \<and> level c = LevelWarn
        \<and> mergingObject c ''warningType'' = Some (JString ''ResponseWarning'')"
      by simp
  next
    assume "status response < 400"
    with run show "\<exists>c. logged (snd (responseLoggerMiddleware ctx w)) = logged w1 @ [c]
        \<and> level c = LevelInfo
        \<and> mergingObject c ''infoType'' = Some (JString ''ResponseSuccess'')"
      by simp
  }
qed

text \<open>The statuses 503, 404 and 200 of the scenarios, one for each class.\<close>

theorem response_classified_by_status_witness:
  "(\<exists>c. logged (snd (responseLoggerMiddleware (scenario_responding 503) scenario_world)) = [c]
       \<and> level c = LevelError
       \<and> mergingObject c ''errorType'' = Some (JString ''ResponseError''))
   \<and> (\<exists>c. logged (snd (responseLoggerMiddleware (scenario_responding 404) scenario_world)) = [c]
       \<and> level c = LevelWarn
       \<and> mergingObject c ''warningType'' = Some (JString ''ResponseWarning''))
   \<and> (\<exists>c. logged (snd (responseLoggerMiddleware (scenario_responding 200) scenario_world)) = [c]
       \<and> level c = LevelInfo
       \<and> mergingObject c ''infoType'' = Some (JString ''ResponseSuccess''))"
proof -
  have run: "context_next (scenario_responding code) scenario_world
               = (Inr \<lparr>status = code, body = ''ok''\<rparr>, scenario_world\<lparr>now := 1012\<rparr>)" for code
    by (simp add: scenario_responding_def scenario_world_def)
  show ?thesis
    using response_classified_by_status [OF run [of 503]]
          response_classified_by_status [OF run [of 404]]
          response_classified_by_status [OF run [of 200]]
    by (simp add: scenario_world_def)
qed

text \<open>
  C3. For a failure of the downstream handler the boundary is to make one \<open>error\<close>
  call with category \<open>UnhandledError\<close> and throw the same failure on. For a thrown
  value whose properties can be read it does (\<open>middleware_throws\<close>). For a handler that
  ends in \<open>throw null\<close> it does neither: reading \<open>error.message\<close> of \<open>null\<close> fails
  inside the \<open>catch\<close> block, so no record is made, and what reaches the caller is the
  \<open>TypeError\<close> of that read in place of the value that was thrown.
\<close>

theorem thrown_null_is_replaced_by_TypeError:
  "fst (context_next scenario_throwing_null scenario_world) = Inl ThrownNull
   \<and> fst (responseLoggerMiddleware scenario_throwing_null scenario_world)
       = Inl (TypeError ''message'')
   \<and> fst (responseLoggerMiddleware scenario_throwing_null scenario_world)
       \<noteq> Inl (Thrown ThrownNull)
   \<and> logged (snd (responseLoggerMiddleware scenario_throwing_null scenario_world)) = []"
proof -
  have run: "context_next scenario_throwing_null scenario_world
               = (Inl ThrownNull, scenario_world\<lparr>now := 1012\<rparr>)"
    by (simp add: scenario_throwing_null_def scenario_world_def)
  have "responseLoggerMiddleware scenario_throwing_null scenario_world
          = (Inl (TypeError ''message''), scenario_world\<lparr>now := 1012\<rparr>)"
    by (rule middleware_throws_nullish [OF run]) simp
  with run show ?thesis
    by (simp add: scenario_world_def)
qed




text \<open>
  C5. The index name is to be \<open>logstash-YYYY.MM.DD\<close> with a year of four digits. The
  function pads the month and the day to two digits but writes the year as it is, so
  for a date in the year 999 the name has a year of three digits, where the format
  asks for \<open>logstash-0999.01.01\<close>. For the years from 1000 to 9999 the name has the
  form (\<open>index_four_digit_year\<close>), it depends on the calendar date alone
  (\<open>index_same_calendar_day\<close>), and 5 March 2024 gives \<open>logstash-2024.03.05\<close>
  (\<open>index_of_2024_03_05\<close>).
\<close>

theorem index_year_not_padded:
  "getIndexFromLogTime (LocalDate 999 0 1 0) = ''logstash-999.01.01''
   \<and> logstash_YYYY_MM_DD 999 1 1 = ''logstash-0999.01.01''
   \<and> getIndexFromLogTime (LocalDate 999 0 1 0) \<noteq> logstash_YYYY_MM_DD 999 1 1"
proof -
  have code: "getIndexFromLogTime (LocalDate 999 0 1 0) = ''logstash-999.01.01''"
    by (simp add: getIndexFromLogTime_def padStart_def decimal.simps digit_char_def)
  have format: "logstash_YYYY_MM_DD 999 1 1 = ''logstash-0999.01.01''"
    by (simp add: logstash_YYYY_MM_DD_def fixed_width_two fixed_width_four digit_char_def)
  from code format show ?thesis by simp
qed

text \<open>
  C6. The table gives \<open>debug\<close>, \<open>info\<close>, \<open>warn\<close> and \<open>error\<close> for the four known
  environments and the default \<open>info\<close> for a missing one (\<open>logLevel_table\<close>,
  \<open>logLevel_unset\<close>, \<open>logLevel_fallback\<close>), but not for every unrecognised one: the
  environment named \<open>constructor\<close> finds the property of that name which the table
  inherits from \<open>Object.prototype\<close>, a function, and \<open>||\<close> keeps it.
\<close>

theorem logLevel_inherited_property:
  "logLevel [(''APPLICATION_ENV'', ''constructor'')] = JIntrinsic ''Object''
   \<and> logLevel [(''APPLICATION_ENV'', ''constructor'')] \<noteq> JString ''info''"
  by (simp add: logLevel_def Deno_env_get_def property_get_def LOG_LEVELS_def js_or_def
      Object_prototype_def)

text \<open>
  C7. When the downstream handler returns a response, of whatever status, the object of
  the one call carries the summary \<open>METHOD URL - STATUS\<close>, the method, the URL, the
  status, the time that passed since the request came in and the \<open>user-agent\<close>
  header. The method, in the summary and on its own, is the request's method in upper
  case: every small letter replaced by its capital, everything else as it was. The
  boundary returns the handler's response as it is.
\<close>

theorem response_logged_and_returned:
  assumes "context_next ctx w = (Inr response, w1)"
  shows "fst (responseLoggerMiddleware ctx w) = Inr response
       \<and> (\<exists>c upper. logged (snd (responseLoggerMiddleware ctx w)) = logged w1 @ [c]
              \<and> is_upper_case_of upper (req_method (req ctx))
              \<and> mergingObject c ''message''
                  = Some (JString (upper @ '' '' @ url (req ctx) @ '' - ''
                                   @ Number_toString (Num (status response))))
              \<and> mergingObject c ''method'' = Some (JString upper)
              \<and> mergingObject c ''url'' = Some (JString (url (req ctx)))
              \<and> mergingObject c ''status'' = Some (JNumber (Num (status response)))
              \<and> mergingObject c ''duration''
                  = Some (JNumber (Num (Date_now w1 - Date_now w)))
              \<and> mergingObject c ''userAgent''
                  = Some (headers_get (headers (req ctx)) ''user-agent''))"
proof
  note run = middleware_returns [OF assms]
  from run show "fst (responseLoggerMiddleware ctx w) = Inr response"
    by simp
  let ?upper = "toUpperCase (req_method (req ctx))"
  have upper: "is_upper_case_of ?upper (req_method (req ctx))"
    by (rule toUpperCase_is_upper_case)
  from run have "\<exists>c. logged (snd (responseLoggerMiddleware ctx w)) = logged w1 @ [c]
      \<and> mergingObject c ''message''
          = Some (JString (?upper @ '' '' @ url (req ctx) @ '' - ''
                           @ Number_toString (Num (status response))))
      \<and> mergingObject c ''method'' = Some (JString ?upper)
      \<and> mergingObject c ''url'' = Some (JString (url (req ctx)))
      \<and> mergingObject c ''status'' = Some (JNumber (Num (status response)))
      \<and> mergingObject c ''duration'' = Some (JNumber (Num (Date_now w1 - Date_now w)))
      \<and> mergingObject c ''userAgent'' = Some (headers_get (headers (req ctx)) ''user-agent'')"
    by (simp del: Number_toString.simps)
  with upper show "\<exists>c upper. logged (snd (responseLoggerMiddleware ctx w)) = logged w1 @ [c]
      \<and> is_upper_case_of upper (req_method (req ctx))
      \<and> mergingObject c ''message''
          = Some (JString (upper @ '' '' @ url (req ctx) @ '' - ''
                           @ Number_toString (Num (status response))))
      \<and> mergingObject c ''method'' = Some (JString upper)
      \<and> mergingObject c ''url'' = Some (JString (url (req ctx)))
      \<and> mergingObject c ''status'' = Some (JNumber (Num (status response)))
      \<and> mergingObject c ''duration'' = Some (JNumber (Num (Date_now w1 - Date_now w)))
      \<and> mergingObject c ''userAgent'' = Some (headers_get (headers (req ctx)) ''user-agent'')"
    by blast
qed

text \<open>
  The request \<open>get /foo\<close>, its method in small letters, answered with status 200 after
  12 milliseconds: the method comes out as \<open>GET\<close>.
\<close>

theorem response_logged_and_returned_witness:
  "fst (responseLoggerMiddleware scenario_lower_case scenario_world)
     = Inr \<lparr>status = 200, body = ''ok''\<rparr>
   \<and> (\<exists>c. logged (snd (responseLoggerMiddleware scenario_lower_case scenario_world)) = [c]
          \<and> mergingObject c ''message'' = Some (JString ''GET /foo - 200'')
          \<and> mergingObject c ''method'' = Some (JString ''GET'')
          \<and> mergingObject c ''url'' = Some (JString ''/foo'')
          \<and> mergingObject c ''status'' = Some (JNumber (Num 200))
          \<and> mergingObject c ''duration'' = Some (JNumber (Num 12))
          \<and> mergingObject c ''userAgent'' = Some (JString ''curl/8.5.0''))"
proof -
  have run: "context_next scenario_lower_case scenario_world
               = (Inr \<lparr>status = 200, body = ''ok''\<rparr>, scenario_world\<lparr>now := 1012\<rparr>)"
    by (simp add: scenario_lower_case_def scenario_world_def)
  have request: "req_method (req scenario_lower_case) = ''get''"
    "url (req scenario_lower_case) = ''/foo''"
    "headers_get (headers (req scenario_lower_case)) ''user-agent'' = JString ''curl/8.5.0''"
    by (simp_all add: scenario_lower_case_def headers_get_def)
  from response_logged_and_returned [OF run]
  obtain c upper where c: "logged (snd (responseLoggerMiddleware scenario_lower_case scenario_world))
                             = [c]"
    and upper: "is_upper_case_of upper ''get''"
    and fields:
      "mergingObject c ''message''
         = Some (JString (upper @ '' '' @ ''/foo'' @ '' - '' @ Number_toString (Num 200)))"
      "mergingObject c ''method'' = Some (JString upper)"
      "mergingObject c ''url'' = Some (JString ''/foo'')"
      "mergingObject c ''status'' = Some (JNumber (Num 200))"
      "mergingObject c ''duration'' = Some (JNumber (Num 12))"
      "mergingObject c ''userAgent'' = Some (JString ''curl/8.5.0'')"
    and result: "fst (responseLoggerMiddleware scenario_lower_case scenario_world)
                   = Inr \<lparr>status = 200, body = ''ok''\<rparr>"
    unfolding request
    by (auto simp: scenario_world_def Date_now_def simp del: Number_toString.simps)
  from upper have "upper = ''GET''"
    by (auto simp: is_upper_case_of_def list_all2_Cons1)
  moreover have "Number_toString (Num 200) = ''200''"
    by (simp add: decimal.simps digit_char_def)
  ultimately have "mergingObject c ''message'' = Some (JString ''GET /foo - 200'')"
    and "mergingObject c ''method'' = Some (JString ''GET'')"
    using fields(1,2) by simp_all
  with c fields(3-6) result show ?thesis
    by blast
qed

text \<open>
  C8. Each of the four delivery outcomes of the Elasticsearch stream (\<open>insert\<close>,
  \<open>insertError\<close>, \<open>unknown\<close>, \<open>error\<close>) has a listener, so emitting it throws
  nothing to the emitter, and the listener writes the outcome to the console under its
  own tag. Writing to the console makes no call of the logger, so nothing of it goes
  back into the stream.
\<close>

theorem delivery_outcomes_go_to_console:
  "emit streamToElasticSearch_listeners ''insert'' outcome w
     = Inr (w\<lparr>console := console w @ [[JString ''ELK INSERT'', outcome]]\<rparr>)
   \<and> emit streamToElasticSearch_listeners ''insertError'' outcome w
     = Inr (w\<lparr>console := console w @ [[JString ''ELK INSERTERROR'', outcome]]\<rparr>)
   \<and> emit streamToElasticSearch_listeners ''unknown'' outcome w
     = Inr (w\<lparr>console := console w @ [[JString ''ELK UNKNOWN'', outcome]]\<rparr>)
   \<and> emit streamToElasticSearch_listeners ''error'' outcome w
     = Inr (w\<lparr>console := console w @ [[JString ''ELK ERROR'', outcome]]\<rparr>)
   \<and> logged (console_log line w) = logged w"
  by (simp add: emit_def streamToElasticSearch_listeners_def on_def console_log_def)

text \<open>
  C9. For a time that is not a valid date the function still returns a string, built
  from the three \<open>NaN\<close> fields. No other date is put in its place: the result is
  the index of no valid date, today's included.
\<close>

theorem index_of_invalid_date:
  "getIndexFromLogTime InvalidDate = ''logstash-NaN.NaN.NaN''
   \<and> getIndexFromLogTime (LocalDate y m d t) \<noteq> getIndexFromLogTime InvalidDate"
proof
  show invalid: "getIndexFromLogTime InvalidDate = ''logstash-NaN.NaN.NaN''"
    by (simp add: getIndexFromLogTime_def padStart_def)
  have "Number_toString (Num y) \<noteq> []"
    using decimal_starts_with_digit by simp
  then obtain c cs where year: "Number_toString (Num y) = c # cs"
    by (cases "Number_toString (Num y)") auto
  with Number_toString_not_NaN [of y] have "c \<noteq> CHR ''N''" by simp
  then have "getIndexFromLogTime (LocalDate y m d t) \<noteq> ''logstash-NaN.NaN.NaN''"
    by (simp add: getIndexFromLogTime_def year del: Number_toString.simps)
  with invalid show "getIndexFromLogTime (LocalDate y m d t) \<noteq> getIndexFromLogTime InvalidDate"
    by simp
qed

text \<open>
  C10. The category has no field of its own that all records share: \<open>logError\<close> puts
  it under \<open>errorType\<close>, \<open>logWarn\<close> under \<open>warningType\<close>, \<open>logInfo\<close> under
  \<open>infoType\<close> and \<open>logDebug\<close> under \<open>debugType\<close> (where the payload does not use
  that name itself), and each of them writes under its own name only: under every other
  name the object holds what the payload holds.
\<close>

theorem category_key_by_severity:
  "(\<exists>c. logged (logError category payload w) = logged w @ [c] \<and> level c = LevelError
       \<and> (payload ''errorType'' = None \<longrightarrow>
            mergingObject c ''errorType'' = Some (JString category))
       \<and> (\<forall>k. k \<noteq> ''errorType'' \<longrightarrow> mergingObject c k = payload k))
   \<and> (\<exists>c. logged (logWarn category payload w) = logged w @ [c] \<and> level c = LevelWarn
       \<and> (payload ''warningType'' = None \<longrightarrow>
            mergingObject c ''warningType'' = Some (JString category))
       \<and> (\<forall>k. k \<noteq> ''warningType'' \<longrightarrow> mergingObject c k = payload k))
   \<and> (\<exists>c. logged (logInfo category payload w) = logged w @ [c] \<and> level c = LevelInfo
       \<and> (payload ''infoType'' = None \<longrightarrow>
            mergingObject c ''infoType'' = Some (JString category))
       \<and> (\<forall>k. k \<noteq> ''infoType'' \<longrightarrow> mergingObject c k = payload k))
   \<and> (\<exists>c. logged (logDebug category payload w) = logged w @ [c] \<and> level c = LevelDebug
       \<and> (payload ''debugType'' = None \<longrightarrow>
            mergingObject c ''debugType'' = Some (JString category))
       \<and> (\<forall>k. k \<noteq> ''debugType'' \<longrightarrow> mergingObject c k = payload k))"
proof -
  have own: "payload key = None \<longrightarrow> spread [key \<mapsto> JString category] payload key
               = Some (JString category)" for key
    by (simp add: spread_lookup)
  have others: "\<forall>k. k \<noteq> key \<longrightarrow> spread [key \<mapsto> JString category] payload k = payload k" for key
    by (simp add: spread_lookup split: option.splits)
  show ?thesis
    using own others
    by (simp add: logError_def logWarn_def logInfo_def logDebug_def elkLogger_def)
qed

text \<open>One payload, logged at each of the four severities.\<close>

theorem category_key_by_severity_witness:
  "(\<exists>c. logged (logError ''Tag'' [''message'' \<mapsto> JString ''hello''] scenario_world) = [c]
       \<and> level c = LevelError
       \<and> mergingObject c ''errorType'' = Some (JString ''Tag'')
       \<and> mergingObject c ''warningType'' = None
       \<and> mergingObject c ''message'' = Some (JString ''hello''))
   \<and> (\<exists>c. logged (logWarn ''Tag'' [''message'' \<mapsto> JString ''hello''] scenario_world) = [c]
       \<and> level c = LevelWarn
       \<and> mergingObject c ''warningType'' = Some (JString ''Tag'')
       \<and> mergingObject c ''errorType'' = None)
   \<and> (\<exists>c. logged (logInfo ''Tag'' [''message'' \<mapsto> JString ''hello''] scenario_world) = [c]
       \<and> level c = LevelInfo
       \<and> mergingObject c ''infoType'' = Some (JString ''Tag'')
       \<and> mergingObject c ''errorType'' = None)
   \<and> (\<exists>c. logged (logDebug ''Tag'' [''message'' \<mapsto> JString ''hello''] scenario_world) = [c]
       \<and> level c = LevelDebug
       \<and> mergingObject c ''debugType'' = Some (JString ''Tag'')
       \<and> mergingObject c ''errorType'' = None)"
proof -
  have none: "logged scenario_world = []"
    by (simp add: scenario_world_def)
  note all = category_key_by_severity
               [of "''Tag''" "[''message'' \<mapsto> JString ''hello'']" scenario_world,
                unfolded none append_Nil]
  from all obtain e where e: "logged (logError ''Tag'' [''message'' \<mapsto> JString ''hello'']
                                       scenario_world) = [e]"
      "level e = LevelError" "mergingObject e ''errorType'' = Some (JString ''Tag'')"
      "\<And>k. k \<noteq> ''errorType'' \<Longrightarrow> mergingObject e k = [''message'' \<mapsto> JString ''hello''] k"
    by auto
  from all obtain x where x: "logged (logWarn ''Tag'' [''message'' \<mapsto> JString ''hello'']
                                       scenario_world) = [x]"
      "level x = LevelWarn" "mergingObject x ''warningType'' = Some (JString ''Tag'')"
      "\<And>k. k \<noteq> ''warningType'' \<Longrightarrow> mergingObject x k = [''message'' \<mapsto> JString ''hello''] k"
    by auto
  from all obtain i where i: "logged (logInfo ''Tag'' [''message'' \<mapsto> JString ''hello'']
                                       scenario_world) = [i]"
      "level i = LevelInfo" "mergingObject i ''infoType'' = Some (JString ''Tag'')"
      "\<And>k. k \<noteq> ''infoType'' \<Longrightarrow> mergingObject i k = [''message'' \<mapsto> JString ''hello''] k"
    by auto
  from all obtain g where g: "logged (logDebug ''Tag'' [''message'' \<mapsto> JString ''hello'']
                                       scenario_world) = [g]"
      "level g = LevelDebug" "mergingObject g ''debugType'' = Some (JString ''Tag'')"
      "\<And>k. k \<noteq> ''debugType'' \<Longrightarrow> mergingObject g k = [''message'' \<mapsto> JString ''hello''] k"
    by auto
  have "mergingObject e ''warningType'' = None" "mergingObject e ''message'' = Some (JString ''hello'')"
    by (simp_all add: e(4))
  moreover have "mergingObject x ''errorType'' = None"
    by (simp add: x(4))
  moreover have "mergingObject i ''errorType'' = None"
    by (simp add: i(4))
  moreover have "mergingObject g ''errorType'' = None"
    by (simp add: g(4))
  ultimately show ?thesis
    using e(1-3) x(1-3) i(1-3) g(1-3) by blast
qed

end
